theory Spec2Isabelle
  imports Main "HOL-Library.Word" "HOL-Library.Sublist"
begin

section \<open>Strings of the page\<close>

text \<open>
  A JavaScript string is a sequence of UTF-16 code units. \<open>String.prototype.trim\<close>, the
  regular-expression escape \<open>\s\<close> and the escape \<open>\D\<close> are all defined on code units,
  so the model keeps them: a string is a list of 16-bit words. \<open>js\<close> embeds an ASCII
  literal of the source.
\<close>

type_synonym code_unit = "16 word"
type_synonym jsstring = "code_unit list"

definition js :: "string \<Rightarrow> jsstring" where
  "js s = map of_char s"

text \<open>
  ECMAScript WhiteSpace and LineTerminator: TAB, LF, VT, FF, CR, SP, NBSP, U+1680,
  U+2000..U+200A, LS, PS, U+202F, U+205F, U+3000 and U+FEFF. This one set is what
  \<open>trim\<close> strips and what \<open>\s\<close> matches.
\<close>

definition is_whitespace :: "code_unit \<Rightarrow> bool" where
  "is_whitespace c =
     (c = 0x0009 \<or> c = 0x000A \<or> c = 0x000B \<or> c = 0x000C \<or> c = 0x000D \<or> c = 0x0020
      \<or> c = 0x00A0 \<or> c = 0x1680 \<or> (0x2000 \<le> c \<and> c \<le> 0x200A)
      \<or> c = 0x2028 \<or> c = 0x2029 \<or> c = 0x202F \<or> c = 0x205F \<or> c = 0x3000 \<or> c = 0xFEFF)"

text \<open>\<open>s.trim()\<close>: leading and trailing white space removed.\<close>

definition trim :: "jsstring \<Rightarrow> jsstring" where
  "trim s = rev (dropWhile is_whitespace (rev (dropWhile is_whitespace s)))"

text \<open>\<open>\d\<close> is \<open>[0-9]\<close>; \<open>\D\<close> is its complement.\<close>

definition is_digit :: "code_unit \<Rightarrow> bool" where
  "is_digit c = (0x0030 \<le> c \<and> c \<le> 0x0039)"

text \<open>
  \<open>s.replace(/C/g, r)\<close> for a pattern that is a single character class \<open>C\<close>: the string
  is scanned from the left, every code unit in the class is replaced by \<open>r\<close>, every
  other one is copied.
\<close>

fun replace_class :: "(code_unit \<Rightarrow> bool) \<Rightarrow> jsstring \<Rightarrow> jsstring \<Rightarrow> jsstring" where
  "replace_class C r [] = []"
| "replace_class C r (c # cs) =
     (if C c then r @ replace_class C r cs else c # replace_class C r cs)"

subsection \<open>Regular expressions\<close>

text \<open>
  The one pattern of the page that is more than a character class is the e-mail shape
  \<open>/^[^\s@]+@[^\s@]+\.[^\s@]+$/\<close>. It has no captures, look-around or back-references,
  and it is anchored at both ends, so \<open>test\<close> decides membership of the whole string in a
  regular language. Membership is computed with derivatives.
\<close>

datatype regex =
    Never
  | Empty
  | Class "code_unit \<Rightarrow> bool"
  | Cat regex regex
  | Alt regex regex
  | Star regex

fun nullable :: "regex \<Rightarrow> bool" where
  "nullable Never = False"
| "nullable Empty = True"
| "nullable (Class C) = False"
| "nullable (Cat r s) = (nullable r \<and> nullable s)"
| "nullable (Alt r s) = (nullable r \<or> nullable s)"
| "nullable (Star r) = True"

fun deriv :: "code_unit \<Rightarrow> regex \<Rightarrow> regex" where
  "deriv c Never = Never"
| "deriv c Empty = Never"
| "deriv c (Class C) = (if C c then Empty else Never)"
| "deriv c (Cat r s) =
     (if nullable r then Alt (Cat (deriv c r) s) (deriv c s) else Cat (deriv c r) s)"
| "deriv c (Alt r s) = Alt (deriv c r) (deriv c s)"
| "deriv c (Star r) = Cat (deriv c r) (Star r)"

fun test :: "regex \<Rightarrow> jsstring \<Rightarrow> bool" where
  "test r [] = nullable r"
| "test r (c # cs) = test (deriv c r) cs"

definition plus :: "regex \<Rightarrow> regex" where
  "plus r = Cat r (Star r)"

definition lit :: "code_unit \<Rightarrow> regex" where
  "lit c = Class (\<lambda>x. x = c)"

text \<open>\<open>[^\s@]\<close>\<close>

definition not_space_or_at :: "code_unit \<Rightarrow> bool" where
  "not_space_or_at c = (\<not> is_whitespace c \<and> c \<noteq> 0x0040)"

text \<open>\<open>/^[^\s@]+@[^\s@]+\.[^\s@]+$/\<close>\<close>

definition email_regex :: regex where
  "email_regex =
     Cat (plus (Class not_space_or_at))
      (Cat (lit 0x0040)
        (Cat (plus (Class not_space_or_at))
          (Cat (lit 0x002E)
            (plus (Class not_space_or_at)))))"

section \<open>The draft\<close>

text \<open>\<open>type FormData\<close>: ten string fields.\<close>

record FormData =
  name :: jsstring
  email :: jsstring
  phone :: jsstring
  projectType :: jsstring
  city :: jsstring
  property :: jsstring
  estimatedCloseDate :: jsstring
  company :: jsstring
  timeline :: jsstring
  message :: jsstring

text \<open>\<open>keyof FormData\<close>\<close>

datatype field_key =
    Name | Email | Phone | ProjectType | City | Property
  | EstimatedCloseDate | Company | Timeline | Message

definition all_fields :: "field_key list" where
  "all_fields =
     [Name, Email, Phone, ProjectType, City, Property,
      EstimatedCloseDate, Company, Timeline, Message]"

text \<open>\<open>formData[field]\<close>\<close>

fun get_field :: "FormData \<Rightarrow> field_key \<Rightarrow> jsstring" where
  "get_field d Name = name d"
| "get_field d Email = email d"
| "get_field d Phone = phone d"
| "get_field d ProjectType = projectType d"
| "get_field d City = city d"
| "get_field d Property = property d"
| "get_field d EstimatedCloseDate = estimatedCloseDate d"
| "get_field d Company = company d"
| "get_field d Timeline = timeline d"
| "get_field d Message = message d"

text \<open>\<open>{ ...prev, [field]: v }\<close>\<close>

fun set_field :: "field_key \<Rightarrow> jsstring \<Rightarrow> FormData \<Rightarrow> FormData" where
  "set_field Name v d = d\<lparr>name := v\<rparr>"
| "set_field Email v d = d\<lparr>email := v\<rparr>"
| "set_field Phone v d = d\<lparr>phone := v\<rparr>"
| "set_field ProjectType v d = d\<lparr>projectType := v\<rparr>"
| "set_field City v d = d\<lparr>city := v\<rparr>"
| "set_field Property v d = d\<lparr>property := v\<rparr>"
| "set_field EstimatedCloseDate v d = d\<lparr>estimatedCloseDate := v\<rparr>"
| "set_field Company v d = d\<lparr>company := v\<rparr>"
| "set_field Timeline v d = d\<lparr>timeline := v\<rparr>"
| "set_field Message v d = d\<lparr>message := v\<rparr>"

text \<open>The initial draft, and the one \<open>setFormData\<close> installs after a successful submission.\<close>

definition empty_form :: FormData where
  "empty_form =
     \<lparr>name = [], email = [], phone = [], projectType = [], city = [], property = [],
      estimatedCloseDate = [], company = [], timeline = [], message = []\<rparr>"

text \<open>
  \<open>Partial<FormData>\<close>: a map from field to message. A key the source sets to
  \<open>undefined\<close> reads like a key that is absent everywhere the component reads the
  mapping (\<open>errors.f ? ... : ...\<close>), so both are \<open>None\<close>.
\<close>

type_synonym error_map = "field_key \<rightharpoonup> jsstring"

text \<open>\<open>Object.keys\<close> of an error mapping built by \<open>validate\<close>.\<close>

definition keys :: "error_map \<Rightarrow> field_key list" where
  "keys m = filter (\<lambda>f. m f \<noteq> None) all_fields"

text \<open>The non-placeholder \<open><option>\<close> values of the \<open>projectType\<close> select element.\<close>

definition service_options :: "jsstring list" where
  "service_options =
     [js ''Forward Exchange'',
      js ''Reverse Exchange'',
      js ''Qualified Intermediary Services'',
      js ''Property Identification'',
      js ''NNN Property Identification'',
      js ''Exchange Consultation'',
      js ''Form 8824 Preparation'',
      js ''Boot Analysis'']"

section \<open>Validation\<close>

text \<open>
  \<open>validate\<close> reads the draft, builds \<open>newErrors\<close> field by field, hands it to
  \<open>setErrors\<close> and returns whether it has no key. The model returns the pair of the
  mapping and the boolean.
\<close>

definition validate :: "FormData \<Rightarrow> error_map \<times> bool" where
  "validate d =
     (let e0 = Map.empty;
          e1 = (if trim (name d) = [] then e0(Name \<mapsto> js ''Required'') else e0);
          e2 = (if trim (email d) = [] \<or> \<not> test email_regex (trim (email d))
                then e1(Email \<mapsto> js ''Invalid email'') else e1);
          e3 = (if trim (phone d) = [] then e2(Phone \<mapsto> js ''Required'') else e2);
          e4 = (if trim (projectType d) = [] then e3(ProjectType \<mapsto> js ''Required'') else e3)
      in (e4, length (keys e4) = 0))"

section \<open>The component\<close>

datatype status = Idle | Submitting | Success | Error

text \<open>
  The state hooks of \<open>ContactForm\<close>. \<open>turnstileId\<close> is \<open>string | null\<close>; the site key
  \<open>process.env.NEXT_PUBLIC_TURNSTILE_SITE_KEY\<close> is \<open>string | undefined\<close> and is a
  parameter of the handlers that read it.
\<close>

record component =
  formData :: FormData
  errors :: error_map
  status :: status
  feedback :: jsstring
  turnstileId :: "jsstring option"
  turnstileReady :: bool

text \<open>The state of the first render.\<close>

definition initial :: component where
  "initial =
     \<lparr>formData = empty_form, errors = Map.empty, status = Idle, feedback = [],
      turnstileId = None, turnstileReady = False\<rparr>"

text \<open>
  Truthiness of a \<open>string | null | undefined\<close>: \<open>null\<close>, \<open>undefined\<close> and the empty
  string are falsy.
\<close>

fun truthy :: "jsstring option \<Rightarrow> bool" where
  "truthy None = False"
| "truthy (Some s) = (s \<noteq> [])"

text \<open>\<open>handleChange(field)\<close> applied to an event whose target has value \<open>v\<close>.\<close>

definition handleChange :: "field_key \<Rightarrow> jsstring \<Rightarrow> component \<Rightarrow> component" where
  "handleChange f v st =
     st\<lparr>formData := set_field f v (formData st), errors := (errors st)(f := None)\<rparr>"

text \<open>The \<open>disabled\<close> attribute of the submit button.\<close>

definition submit_disabled :: "jsstring option \<Rightarrow> component \<Rightarrow> bool" where
  "submit_disabled siteKey st =
     (status st = Submitting \<or> (truthy siteKey \<and> \<not> turnstileReady st))"

section \<open>Submission\<close>

text \<open>
  What \<open>handleSubmit\<close> does to the outside world, in order: calls of the widget's
  \<open>reset\<close> and \<open>execute\<close> with the widget identifier, and the \<open>fetch\<close> of
  \<open>POST /api/contact\<close> with the object that is serialised as its JSON body, given as its
  keys and values in the order of the object literal. Console output is left out.
\<close>

datatype effect =
    Reset jsstring
  | Execute jsstring
  | Fetch "(string \<times> jsstring) list"

fun is_fetch :: "effect \<Rightarrow> bool" where
  "is_fetch (Fetch b) = True"
| "is_fetch _ = False"

text \<open>
  How the promise around \<open>window.turnstile.execute\<close> settles: the widget calls
  \<open>callback\<close> with a token, or \<open>error-callback\<close>, or \<open>timeout-callback\<close>, or none of
  them ever.
\<close>

datatype execute_outcome = Token jsstring | ErrorCallback | TimeoutCallback | NoCallback

text \<open>
  What \<open>response.json()\<close> gives for a response that is not OK, as far as the handler looks
  at it: the body does not parse; it parses to \<open>null\<close>; it parses to a value with no
  \<open>error\<close> property to read; it parses to an object whose \<open>error\<close> property is a string
  (the endpoint's contract types the property as a string).
\<close>

datatype response_body = Unparseable | JsonNull | NoErrorField | ErrorField jsstring

text \<open>
  How the promise of \<open>fetch\<close> settles: it rejects (network failure), it resolves to a
  response with its \<open>ok\<close> flag and body, or it never settles.
\<close>

datatype fetch_outcome = FetchRejects | Response bool response_body | FetchNeverSettles

text \<open>
  The surroundings of one submission: whether \<open>window.turnstile\<close> is defined, and
  how the two awaited promises settle if the handler gets to them. The
  widget's \<open>reset\<close> and \<open>execute\<close> are taken to return normally, as their declared types
  say.
\<close>

record submit_env =
  window_turnstile :: bool
  execute_result :: execute_outcome
  fetch_result :: fetch_outcome

text \<open>\<open>if (window.turnstile && turnstileId) window.turnstile.reset(turnstileId)\<close>\<close>

definition reset_widget :: "submit_env \<Rightarrow> component \<Rightarrow> effect list" where
  "reset_widget env st =
     (case turnstileId st of
        None \<Rightarrow> []
      | Some i \<Rightarrow> if window_turnstile env \<and> i \<noteq> [] then [Reset i] else [])"

text \<open>The object literal passed to \<open>JSON.stringify\<close>.\<close>

definition request_body :: "FormData \<Rightarrow> jsstring \<Rightarrow> (string \<times> jsstring) list" where
  "request_body d turnstileToken =
     (let phoneDigits = replace_class (\<lambda>c. \<not> is_digit c) [] (phone d)
      in [(''name'', name d),
          (''email'', email d),
          (''phone'', phoneDigits),
          (''projectType'', projectType d),
          (''city'', city d),
          (''property'', property d),
          (''estimatedCloseDate'', estimatedCloseDate d),
          (''company'', company d),
          (''timeline'', timeline d),
          (''details'', message d),
          (''turnstileToken'', turnstileToken)])"

text \<open>The outer \<open>catch\<close> block.\<close>

definition submit_failed :: "submit_env \<Rightarrow> component \<Rightarrow> effect list \<Rightarrow> component \<times> effect list" where
  "submit_failed env st sofar =
     (st\<lparr>feedback := js ''An error occurred. Please try again or contact us directly.'',
         status := Error\<rparr>,
      sofar @ reset_widget env st)"

text \<open>
  From \<open>const response = await fetch(...)\<close> to the end of the \<open>try\<close> block. \<open>sofar\<close> are
  the effects so far. Reading \<open>errorData.error\<close> of a body that parsed to \<open>null\<close> throws
  a TypeError, which the outer \<open>catch\<close> handles.
\<close>

definition send :: "submit_env \<Rightarrow> component \<Rightarrow> jsstring \<Rightarrow> effect list \<Rightarrow> component \<times> effect list" where
  "send env st turnstileToken sofar =
     (let sent = sofar @ [Fetch (request_body (formData st) turnstileToken)]
      in case fetch_result env of
           FetchNeverSettles \<Rightarrow> (st, sent)
         | FetchRejects \<Rightarrow> submit_failed env st sent
         | Response ok body \<Rightarrow>
             if ok then
               (st\<lparr>formData := empty_form,
                   status := Success,
                   feedback := js ''Thank you. A Los Angeles exchange specialist will follow up within one business day.''\<rparr>,
                sent @ reset_widget env st)
             else
               (case body of
                  JsonNull \<Rightarrow> submit_failed env st sent
                | Unparseable \<Rightarrow>
                    (st\<lparr>feedback := js ''Failed to submit form'', status := Error\<rparr>,
                     sent @ reset_widget env st)
                | NoErrorField \<Rightarrow>
                    (st\<lparr>feedback := js ''Failed to submit form. Please try again.'', status := Error\<rparr>,
                     sent @ reset_widget env st)
                | ErrorField m \<Rightarrow>
                    (st\<lparr>feedback := (if m \<noteq> [] then m else js ''Failed to submit form. Please try again.''),
                        status := Error\<rparr>,
                     sent @ reset_widget env st)))"

text \<open>
  \<open>handleSubmit\<close>: the state the component is left in once the handler has run as far as
  it gets, and the effects it had. The handler reads \<open>formData\<close>, \<open>turnstileReady\<close> and
  \<open>turnstileId\<close> of the render it was created in, and each setter replaces its state
  variable.
\<close>

definition handleSubmit ::
  "jsstring option \<Rightarrow> submit_env \<Rightarrow> component \<Rightarrow> component \<times> effect list" where
  "handleSubmit siteKey env st =
     (case validate (formData st) of (newErrors, valid) \<Rightarrow>
        if \<not> valid then
          (st\<lparr>errors := newErrors, feedback := js ''Please complete all required fields.''\<rparr>, [])
        else
          let st1 = st\<lparr>status := Submitting, errors := Map.empty, feedback := []\<rparr> in
          if truthy siteKey \<and>
             (\<not> turnstileReady st \<or> \<not> window_turnstile env \<or> \<not> truthy (turnstileId st))
          then
            (st1\<lparr>feedback := js ''Please complete the security verification.'', status := Error\<rparr>, [])
          else if truthy siteKey \<and> window_turnstile env \<and> truthy (turnstileId st) then
            (case turnstileId st of
               None \<Rightarrow> send env st1 [] []
             | Some i \<Rightarrow>
                 (case execute_result env of
                    Token t \<Rightarrow> send env st1 t [Reset i, Execute i]
                  | NoCallback \<Rightarrow> (st1, [Reset i, Execute i])
                  | _ \<Rightarrow>
                      (st1\<lparr>feedback := js ''Security verification failed. Please try again.'',
                           status := Error\<rparr>,
                       [Reset i, Execute i] @ reset_widget env st)))
          else send env st1 [] [])"

section \<open>Loading the verification script\<close>

text \<open>
  What \<open>loadTurnstile\<close> reads and writes: whether \<open>window\<close> is defined (it is not during
  server rendering), the flag \<open>window._turnstileLoaded\<close>, and the \<open>src\<close> attributes of
  the script elements of the document, in document order.
\<close>

record page =
  window_defined :: bool
  turnstileLoaded :: bool
  scripts :: "jsstring list"

definition script_prefix :: jsstring where
  "script_prefix = js ''https://challenges.cloudflare.com/turnstile/v0/api.js''"

definition script_src :: jsstring where
  "script_src = js ''https://challenges.cloudflare.com/turnstile/v0/api.js?render=explicit''"

text \<open>
  The promise \<open>loadTurnstile\<close> returns is already resolved, or it is settled later by the
  \<open>load\<close> or \<open>error\<close> event of the script element the call appended.
\<close>

datatype load_promise = Resolved | AwaitsScript

definition loadTurnstile :: "page \<Rightarrow> page \<times> load_promise" where
  "loadTurnstile p =
     (if \<not> window_defined p then (p, Resolved)
      else if turnstileLoaded p then (p, Resolved)
      else
        (case find (prefix script_prefix) (scripts p) of
           Some existing \<Rightarrow> (p\<lparr>turnstileLoaded := True\<rparr>, Resolved)
         | None \<Rightarrow> (p\<lparr>scripts := scripts p @ [script_src]\<rparr>, AwaitsScript)))"

text \<open>\<open>s.onload\<close> and \<open>s.onerror\<close>, as far as the page is concerned.\<close>

definition onload :: "page \<Rightarrow> page" where
  "onload p = p\<lparr>turnstileLoaded := True\<rparr>"

definition onerror :: "page \<Rightarrow> page" where
  "onerror p = p"

text \<open>
  A page lifetime, seen from the loader: calls of \<open>loadTurnstile\<close> and load or error
  events of a script it appended, in any order. Nothing in the source removes a script
  element.
\<close>

datatype page_event = CallLoad | ScriptLoad | ScriptError

fun page_step :: "page_event \<Rightarrow> page \<Rightarrow> page" where
  "page_step CallLoad p = fst (loadTurnstile p)"
| "page_step ScriptLoad p = onload p"
| "page_step ScriptError p = onerror p"

fun lifetime :: "page_event list \<Rightarrow> page \<Rightarrow> page" where
  "lifetime [] p = p"
| "lifetime (e # es) p = lifetime es (page_step e p)"

text \<open>
  A page on which a call of the loader appends nothing: there is no \<open>window\<close>, or the
  flag is set, or \<open>querySelector\<close> finds a script whose \<open>src\<close> starts with the prefix.
\<close>

definition loader_idle :: "page \<Rightarrow> bool" where
  "loader_idle p =
     (\<not> window_defined p \<or> turnstileLoaded p
      \<or> find (prefix script_prefix) (scripts p) \<noteq> None)"

text \<open>\<open>n\<close> calls of \<open>loadTurnstile\<close> in a row: the page after them and the promises returned.\<close>

fun load_times :: "nat \<Rightarrow> page \<Rightarrow> page \<times> load_promise list" where
  "load_times 0 p = (p, [])"
| "load_times (Suc n) p =
     (case loadTurnstile p of (p', r) \<Rightarrow>
        (case load_times n p' of (p'', rs) \<Rightarrow> (p'', r # rs)))"

section \<open>Initialising the widget\<close>

datatype script_outcome = Loads | Fails | Neither

datatype render_outcome = Rendered jsstring | RenderThrows

text \<open>
  The surroundings of the mount effect: whether the cleanup has run before the timer
  fires, what becomes of a script the loader appended, whether the cleanup has run by the
  time the loader's promise resolves, whether \<open>window.turnstile\<close> and
  \<open>captchaRef.current\<close> are there, and what \<open>window.turnstile.render\<close> does.
\<close>

record init_env =
  cancelled_at_start :: bool
  script_event :: script_outcome
  cancelled_after_load :: bool
  turnstile_available :: bool
  captcha_mounted :: bool
  render_result :: render_outcome

datatype settled = Fulfilled | Rejected | Unsettled

text \<open>\<open>await loadTurnstile()\<close>\<close>

definition await_load :: "init_env \<Rightarrow> page \<Rightarrow> page \<times> settled" where
  "await_load env p =
     (case loadTurnstile p of
        (p', Resolved) \<Rightarrow> (p', Fulfilled)
      | (p', AwaitsScript) \<Rightarrow>
          (case script_event env of
             Loads \<Rightarrow> (onload p', Fulfilled)
           | Fails \<Rightarrow> (onerror p', Rejected)
           | Neither \<Rightarrow> (p', Unsettled)))"

text \<open>The callback of the 500 ms timer of the mount effect.\<close>

definition init_turnstile ::
  "jsstring option \<Rightarrow> init_env \<Rightarrow> page \<times> component \<Rightarrow> page \<times> component" where
  "init_turnstile siteKey env ps =
     (case ps of (p, st) \<Rightarrow>
        if cancelled_at_start env then (p, st)
        else if \<not> truthy siteKey then (p, st)
        else
          (case await_load env p of
             (p', Unsettled) \<Rightarrow> (p', st)
           | (p', Rejected) \<Rightarrow> (p', st\<lparr>turnstileReady := False\<rparr>)
           | (p', Fulfilled) \<Rightarrow>
               if cancelled_after_load env then (p', st)
               else if \<not> turnstile_available env then (p', st)
               else if \<not> captcha_mounted env then (p', st)
               else
                 (case render_result env of
                    Rendered i \<Rightarrow> (p', st\<lparr>turnstileId := Some i, turnstileReady := True\<rparr>)
                  | RenderThrows \<Rightarrow> (p', st\<lparr>turnstileReady := False\<rparr>))))"

text \<open>The three callbacks handed to \<open>render\<close>, for the widget to call later.\<close>

datatype widget_signal = Passed | Errored | TimedOut

fun render_callback :: "widget_signal \<Rightarrow> component \<Rightarrow> component" where
  "render_callback Passed st = st\<lparr>turnstileReady := True\<rparr>"
| "render_callback Errored st = st\<lparr>turnstileReady := False\<rparr>"
| "render_callback TimedOut st = st\<lparr>turnstileReady := False\<rparr>"

section \<open>Concrete inputs\<close>

text \<open>A draft that passes validation, with the phone number written the usual way.\<close>

definition sample_draft :: FormData where
  "sample_draft =
     \<lparr>name = js ''Ada Lovelace'', email = js ''ada@example.com'',
      phone = js ''(818) 412-8402'', projectType = js ''Boot Analysis'', city = [],
      property = [], estimatedCloseDate = [], company = [], timeline = [], message = []\<rparr>"

text \<open>The same draft with a service that the select element does not offer.\<close>

definition unlisted_service_draft :: FormData where
  "unlisted_service_draft = sample_draft\<lparr>projectType := js ''Delaware Statutory Trust''\<rparr>"

text \<open>The component just after mount, holding the sample draft.\<close>

definition sample_state :: component where
  "sample_state = initial\<lparr>formData := sample_draft\<rparr>"

text \<open>The component with two field errors showing.\<close>

definition flagged_state :: component where
  "flagged_state =
     initial\<lparr>errors := [Name \<mapsto> js ''Required'', Email \<mapsto> js ''Invalid email'']\<rparr>"

text \<open>Backends: one that accepts, one that answers 500 with a message, one with an empty message.\<close>

definition accepting_env :: submit_env where
  "accepting_env =
     \<lparr>window_turnstile = False, execute_result = NoCallback,
      fetch_result = Response True NoErrorField\<rparr>"

definition duplicate_lead_env :: submit_env where
  "duplicate_lead_env =
     \<lparr>window_turnstile = False, execute_result = NoCallback,
      fetch_result = Response False (ErrorField (js ''Duplicate lead''))\<rparr>"

definition empty_message_env :: submit_env where
  "empty_message_env =
     \<lparr>window_turnstile = False, execute_result = NoCallback,
      fetch_result = Response False (ErrorField [])\<rparr>"

text \<open>A page in the browser that has not asked for the script yet.\<close>

definition fresh_page :: page where
  "fresh_page = \<lparr>window_defined = True, turnstileLoaded = False, scripts = []\<rparr>"

text \<open>A mount where everything works and the widget gets the identifier \<open>w0\<close>.\<close>

definition smooth_init :: init_env where
  "smooth_init =
     \<lparr>cancelled_at_start = False, script_event = Loads, cancelled_after_load = False,
      turnstile_available = True, captcha_mounted = True, render_result = Rendered (js ''w0'')\<rparr>"

section \<open>Strings: what the helpers compute\<close>

lemma replace_class_filter: "replace_class C [] s = filter (\<lambda>c. \<not> C c) s"
  by (induction s) auto

lemma trim_eq_Nil: "trim s = [] \<longleftrightarrow> list_all is_whitespace s"
proof
  assume "list_all is_whitespace s"
  then have d: "dropWhile is_whitespace s = []"
    by (simp add: list_all_iff)
  show "trim s = []"
    by (simp only: trim_def d rev.simps dropWhile.simps)
next
  assume t: "trim s = []"
  have "dropWhile is_whitespace s = []"
  proof (rule ccontr)
    assume ne: "dropWhile is_whitespace s \<noteq> []"
    then have "\<not> is_whitespace (hd (dropWhile is_whitespace s))"
      by (rule hd_dropWhile)
    moreover have "hd (dropWhile is_whitespace s) \<in> set (rev (dropWhile is_whitespace s))"
      using ne by simp
    ultimately have "dropWhile is_whitespace (rev (dropWhile is_whitespace s)) \<noteq> []"
      by (metis dropWhile_eq_Nil_conv)
    with t show False by (simp add: trim_def)
  qed
  then show "list_all is_whitespace s"
    by (simp add: list_all_iff)
qed

text \<open>The e-mail pattern on a few strings: one \<open>@\<close>, a dot after it, no white space.\<close>

lemma email_regex_examples:
  "test email_regex (js ''a@b.c'')"
  "test email_regex (js ''first.last@mail.example.com'')"
  "\<not> test email_regex (js ''a@b'')"
  "\<not> test email_regex (js ''a@b.'')"
  "\<not> test email_regex (js ''@b.c'')"
  "\<not> test email_regex (js ''a@@b.c'')"
  "\<not> test email_regex (js ''a b@c.d'')"
  "\<not> test email_regex []"
  by (simp_all add: js_def is_whitespace_def email_regex_def plus_def lit_def not_space_or_at_def)

lemma trim_examples:
  "trim (js ''  a b  '') = js ''a b''"
  "trim (js ''   '') = []"
  "trim [0x00A0, 0x0041, 0x2028] = [0x0041]"
  by (simp_all add: js_def trim_def is_whitespace_def)

section \<open>Validation: the mapping and the verdict\<close>

lemma validate_fst:
  "fst (validate d) f =
     (if f = Name \<and> trim (name d) = [] then Some (js ''Required'')
      else if f = Email \<and> (trim (email d) = [] \<or> \<not> test email_regex (trim (email d)))
        then Some (js ''Invalid email'')
      else if f = Phone \<and> trim (phone d) = [] then Some (js ''Required'')
      else if f = ProjectType \<and> trim (projectType d) = [] then Some (js ''Required'')
      else None)"
  by (cases f) (simp_all add: validate_def Let_def)

lemma validate_snd:
  "snd (validate d) \<longleftrightarrow>
     trim (name d) \<noteq> [] \<and> trim (email d) \<noteq> [] \<and> test email_regex (trim (email d))
     \<and> trim (phone d) \<noteq> [] \<and> trim (projectType d) \<noteq> []"
  by (simp add: validate_def Let_def keys_def all_fields_def)

lemma sample_draft_valid: "snd (validate sample_draft)"
  by (simp add: validate_snd sample_draft_def js_def trim_def is_whitespace_def
      email_regex_def plus_def lit_def not_space_or_at_def)

section \<open>Claims about validation and editing\<close>

text \<open>
  The draft \<open>unlisted_service_draft\<close> names a service that is not among the options of
  the select element, and validation passes it.
\<close>

theorem validate_unlisted_service_counterexample:
  "projectType unlisted_service_draft \<noteq> []
   \<and> projectType unlisted_service_draft \<notin> set service_options
   \<and> snd (validate unlisted_service_draft)"
  by (simp add: validate_snd unlisted_service_draft_def sample_draft_def service_options_def
      js_def trim_def is_whitespace_def email_regex_def plus_def lit_def not_space_or_at_def)

text \<open>
  C1, as the code has it: validation accepts the \<open>projectType\<close> field (records no error
  for it) exactly when the field has a character that is not white space. Membership in
  the enumerated set of services is not part of validation; each of the eight options
  of the select element is accepted.
\<close>

theorem validate_projectType:
  "(fst (validate d) ProjectType = None \<longleftrightarrow> \<not> list_all is_whitespace (projectType d))
   \<and> (\<forall>s \<in> set service_options. fst (validate (d\<lparr>projectType := s\<rparr>)) ProjectType = None)"
proof
  show "fst (validate d) ProjectType = None \<longleftrightarrow> \<not> list_all is_whitespace (projectType d)"
    by (simp add: validate_fst trim_eq_Nil)
next
  have "\<forall>s \<in> set service_options. \<not> list_all is_whitespace s"
    by (simp add: service_options_def js_def is_whitespace_def)
  then show "\<forall>s \<in> set service_options. fst (validate (d\<lparr>projectType := s\<rparr>)) ProjectType = None"
    by (simp add: validate_fst trim_eq_Nil)
qed

theorem validate_projectType_witness:
  "js ''Boot Analysis'' \<in> set service_options
   \<and> fst (validate (sample_draft\<lparr>projectType := js ''Boot Analysis''\<rparr>)) ProjectType = None"
proof -
  have m: "js ''Boot Analysis'' \<in> set service_options"
    by (simp add: service_options_def)
  with validate_projectType [of sample_draft] show ?thesis
    by blast
qed

text \<open>
  C6: when \<open>name\<close>, \<open>email\<close>, \<open>phone\<close> or \<open>projectType\<close> is empty or consists of white
  space only, validation returns false and the error mapping has an entry for that
  field.
\<close>

theorem validate_required:
  assumes "f \<in> {Name, Email, Phone, ProjectType}"
    and "list_all is_whitespace (get_field d f)"
  shows "\<not> snd (validate d) \<and> fst (validate d) f \<noteq> None"
proof -
  from assms(2) have "trim (get_field d f) = []"
    by (simp add: trim_eq_Nil)
  with assms(1) show ?thesis
    by (auto simp: validate_snd validate_fst)
qed

theorem validate_required_witness:
  "Phone \<in> {Name, Email, Phone, ProjectType}
   \<and> list_all is_whitespace (get_field (sample_draft\<lparr>phone := js ''   ''\<rparr>) Phone)
   \<and> \<not> snd (validate (sample_draft\<lparr>phone := js ''   ''\<rparr>))
   \<and> fst (validate (sample_draft\<lparr>phone := js ''   ''\<rparr>)) Phone \<noteq> None"
proof -
  have a: "Phone \<in> {Name, Email, Phone, ProjectType}" by simp
  have b: "list_all is_whitespace (get_field (sample_draft\<lparr>phone := js ''   ''\<rparr>) Phone)"
    by (simp add: js_def is_whitespace_def)
  from validate_required [OF a b] a b show ?thesis by simp
qed

text \<open>
  C8: the change handler of a field \<open>f\<close> sets the draft's value of \<open>f\<close> to the new input
  and removes the error entry of \<open>f\<close>; the draft's value and the error entry of every
  other field stay as they were, and so does the rest of the component's state.
\<close>

theorem handleChange_frame:
  "get_field (formData (handleChange f v st)) f = v
   \<and> errors (handleChange f v st) f = None
   \<and> (\<forall>g. g \<noteq> f \<longrightarrow>
         get_field (formData (handleChange f v st)) g = get_field (formData st) g
         \<and> errors (handleChange f v st) g = errors st g)
   \<and> status (handleChange f v st) = status st
   \<and> feedback (handleChange f v st) = feedback st
   \<and> turnstileId (handleChange f v st) = turnstileId st
   \<and> turnstileReady (handleChange f v st) = turnstileReady st"
proof -
  have own: "get_field (set_field f v d) f = v" for d
    by (cases f) simp_all
  have other: "g \<noteq> f \<Longrightarrow> get_field (set_field f v d) g = get_field d g" for g d
    by (cases f; cases g) simp_all
  show ?thesis
    by (simp add: handleChange_def own other)
qed

theorem handleChange_frame_witness:
  "Email \<noteq> Name
   \<and> errors flagged_state Name = Some (js ''Required'')
   \<and> get_field (formData (handleChange Name (js ''Ada'') flagged_state)) Name = js ''Ada''
   \<and> errors (handleChange Name (js ''Ada'') flagged_state) Name = None
   \<and> get_field (formData (handleChange Name (js ''Ada'') flagged_state)) Email = []
   \<and> errors (handleChange Name (js ''Ada'') flagged_state) Email = Some (js ''Invalid email'')"
proof -
  have e: "errors flagged_state Name = Some (js ''Required'')"
    "errors flagged_state Email = Some (js ''Invalid email'')"
    "get_field (formData flagged_state) Email = []"
    by (simp_all add: flagged_state_def initial_def empty_form_def)
  note t = handleChange_frame [of Name "js ''Ada''" flagged_state]
  from t have own:
    "get_field (formData (handleChange Name (js ''Ada'') flagged_state)) Name = js ''Ada''
     \<and> errors (handleChange Name (js ''Ada'') flagged_state) Name = None"
    by blast
  from t have "Email \<noteq> Name \<longrightarrow>
      get_field (formData (handleChange Name (js ''Ada'') flagged_state)) Email
        = get_field (formData flagged_state) Email
      \<and> errors (handleChange Name (js ''Ada'') flagged_state) Email = errors flagged_state Email"
    by blast
  with own e show ?thesis
    by simp
qed

section \<open>Submission: the effects and the final state\<close>

text \<open>Resetting the widget is never a network request.\<close>

lemma reset_widget_no_fetch: "filter is_fetch (reset_widget env st) = []"
  by (simp add: reset_widget_def split: option.split)

lemma submit_failed_fetches:
  "filter is_fetch (snd (submit_failed env st sofar)) = filter is_fetch sofar"
  by (simp add: submit_failed_def reset_widget_no_fetch)

text \<open>Once the handler gets to \<open>fetch\<close>, it makes that one request and no other.\<close>

lemma send_fetches:
  "filter is_fetch (snd (send env st t sofar)) =
     filter is_fetch sofar @ [Fetch (request_body (formData st) t)]"
  by (simp add: send_def Let_def submit_failed_fetches reset_widget_no_fetch
      split: fetch_outcome.split response_body.split)

lemma send_ok:
  "fetch_result env = Response True body \<Longrightarrow>
   fst (send env st t sofar) =
     st\<lparr>formData := empty_form, status := Success,
        feedback := js ''Thank you. A Los Angeles exchange specialist will follow up within one business day.''\<rparr>"
  by (simp add: send_def Let_def)

lemma send_not_ok:
  "fetch_result env = Response False body \<Longrightarrow>
   fst (send env st t sofar) =
     st\<lparr>feedback :=
          (case body of
             Unparseable \<Rightarrow> js ''Failed to submit form''
           | JsonNull \<Rightarrow> js ''An error occurred. Please try again or contact us directly.''
           | NoErrorField \<Rightarrow> js ''Failed to submit form. Please try again.''
           | ErrorField m \<Rightarrow> if m \<noteq> [] then m else js ''Failed to submit form. Please try again.''),
        status := Error\<rparr>"
  by (simp add: send_def Let_def submit_failed_def split: response_body.split)

text \<open>The three ways through the handler before \<open>fetch\<close>.\<close>

lemma handleSubmit_invalid:
  "\<not> snd (validate (formData st)) \<Longrightarrow>
   handleSubmit k env st =
     (st\<lparr>errors := fst (validate (formData st)),
         feedback := js ''Please complete all required fields.''\<rparr>, [])"
  by (simp add: handleSubmit_def case_prod_beta)

lemma handleSubmit_not_ready:
  "snd (validate (formData st)) \<Longrightarrow> truthy k \<Longrightarrow>
   \<not> turnstileReady st \<or> \<not> window_turnstile env \<or> \<not> truthy (turnstileId st) \<Longrightarrow>
   handleSubmit k env st =
     (st\<lparr>status := Error, errors := Map.empty,
         feedback := js ''Please complete the security verification.''\<rparr>, [])"
  by (auto simp: handleSubmit_def Let_def case_prod_beta)

lemma handleSubmit_disabled:
  "snd (validate (formData st)) \<Longrightarrow> \<not> truthy k \<Longrightarrow>
   handleSubmit k env st =
     send env (st\<lparr>status := Submitting, errors := Map.empty, feedback := []\<rparr>) [] []"
  by (auto simp: handleSubmit_def Let_def case_prod_beta)

text \<open>
  A request in the effects means that validation passed and that the handler went on
  from the state in which it started its \<open>try\<close> block, with some token.
\<close>

lemma handleSubmit_sends:
  assumes "Fetch b \<in> set (snd (handleSubmit k env st))"
  shows "\<exists>t sofar. handleSubmit k env st =
            send env (st\<lparr>status := Submitting, errors := Map.empty, feedback := []\<rparr>) t sofar
          \<and> b = request_body (formData st) t \<and> filter is_fetch sofar = []"
proof -
  let ?st1 = "st\<lparr>status := Submitting, errors := Map.empty, feedback := []\<rparr>"
  have sent: "Fetch b \<in> set (snd (send env ?st1 t sofar)) \<Longrightarrow> filter is_fetch sofar = [] \<Longrightarrow>
      b = request_body (formData st) t" for t sofar
  proof -
    assume a: "Fetch b \<in> set (snd (send env ?st1 t sofar))" and d: "filter is_fetch sofar = []"
    from a have "Fetch b \<in> set (filter is_fetch (snd (send env ?st1 t sofar)))"
      by simp
    then show ?thesis
      by (simp add: send_fetches d)
  qed
  have valid: "snd (validate (formData st))"
    using assms by (rule contrapos_pp) (simp add: handleSubmit_invalid)
  show ?thesis
  proof (cases "truthy k")
    case False
    with valid have h: "handleSubmit k env st = send env ?st1 [] []"
      by (rule handleSubmit_disabled)
    with assms sent [of "[]" "[]"] have "b = request_body (formData st) []"
      by simp
    with h show ?thesis
      by (intro exI [where x = "[]"]) simp
  next
    case True
    show ?thesis
    proof (cases "\<not> turnstileReady st \<or> \<not> window_turnstile env \<or> \<not> truthy (turnstileId st)")
      case True
      with valid \<open>truthy k\<close> have "snd (handleSubmit k env st) = []"
        by (simp add: handleSubmit_not_ready)
      with assms show ?thesis by simp
    next
      case False
      then obtain i where i: "turnstileId st = Some i" "i \<noteq> []"
        by (cases "turnstileId st") auto
      show ?thesis
      proof (cases "execute_result env")
        case (Token t)
        with valid \<open>truthy k\<close> False i
        have h: "handleSubmit k env st = send env ?st1 t [Reset i, Execute i]"
          by (simp add: handleSubmit_def Let_def case_prod_beta)
        with assms sent [of t "[Reset i, Execute i]"] have "b = request_body (formData st) t"
          by simp
        with h show ?thesis
          by (intro exI [where x = t] exI [where x = "[Reset i, Execute i]"]) simp
      next
        case ErrorCallback
        with valid \<open>truthy k\<close> False i
        have "filter is_fetch (snd (handleSubmit k env st)) = []"
          by (simp add: handleSubmit_def Let_def reset_widget_no_fetch case_prod_beta)
        with assms show ?thesis
          by (metis filter_empty_conv is_fetch.simps(1))
      next
        case TimeoutCallback
        with valid \<open>truthy k\<close> False i
        have "filter is_fetch (snd (handleSubmit k env st)) = []"
          by (simp add: handleSubmit_def Let_def reset_widget_no_fetch case_prod_beta)
        with assms show ?thesis
          by (metis filter_empty_conv is_fetch.simps(1))
      next
        case NoCallback
        with valid \<open>truthy k\<close> False i
        have "filter is_fetch (snd (handleSubmit k env st)) = []"
          by (simp add: handleSubmit_def Let_def case_prod_beta)
        with assms show ?thesis
          by (metis filter_empty_conv is_fetch.simps(1))
      qed
    qed
  qed
qed

lemma sample_submission:
  "handleSubmit None env sample_state =
     send env (sample_state\<lparr>status := Submitting, errors := Map.empty, feedback := []\<rparr>) [] []"
  by (rule handleSubmit_disabled) (simp_all add: sample_state_def sample_draft_valid)

lemma sample_submission_sends:
  "Fetch (request_body sample_draft []) \<in> set (snd (handleSubmit None env sample_state))"
proof -
  have "filter is_fetch (snd (handleSubmit None env sample_state))
      = [Fetch (request_body (formData sample_state) [])]"
    by (simp add: sample_submission send_fetches)
  moreover have "formData sample_state = sample_draft"
    by (simp add: sample_state_def)
  ultimately have "Fetch (request_body sample_draft []) \<in>
      set (filter is_fetch (snd (handleSubmit None env sample_state)))"
    by simp
  then show ?thesis by simp
qed

section \<open>Claims about submission\<close>

text \<open>
  C2: for a valid draft, when the site key is configured and the session is not ready
  (\<open>window.turnstile\<close> absent, widget identifier absent, or readiness flag false),
  submitting makes no network request, leaves the status at \<open>error\<close> and sets the
  feedback to the security-verification message.
\<close>

theorem submit_not_ready:
  assumes "snd (validate (formData st))"
    and "truthy siteKey"
    and "\<not> window_turnstile env \<or> \<not> truthy (turnstileId st) \<or> \<not> turnstileReady st"
  shows "filter is_fetch (snd (handleSubmit siteKey env st)) = []
    \<and> status (fst (handleSubmit siteKey env st)) = Error
    \<and> feedback (fst (handleSubmit siteKey env st)) = js ''Please complete the security verification.''"
proof -
  from assms(3) have "\<not> turnstileReady st \<or> \<not> window_turnstile env \<or> \<not> truthy (turnstileId st)"
    by blast
  with assms(1,2) show ?thesis
    by (simp add: handleSubmit_not_ready)
qed

theorem submit_not_ready_witness:
  "snd (validate (formData sample_state))
   \<and> truthy (Some (js ''site-key''))
   \<and> \<not> turnstileReady sample_state
   \<and> filter is_fetch (snd (handleSubmit (Some (js ''site-key'')) accepting_env sample_state)) = []
   \<and> status (fst (handleSubmit (Some (js ''site-key'')) accepting_env sample_state)) = Error
   \<and> feedback (fst (handleSubmit (Some (js ''site-key'')) accepting_env sample_state))
       = js ''Please complete the security verification.''"
proof -
  have v: "snd (validate (formData sample_state))"
    by (simp add: sample_state_def sample_draft_valid)
  have k: "truthy (Some (js ''site-key''))"
    by (simp add: js_def)
  have r: "\<not> turnstileReady sample_state"
    by (simp add: sample_state_def initial_def)
  then have n: "\<not> window_turnstile accepting_env \<or> \<not> truthy (turnstileId sample_state)
      \<or> \<not> turnstileReady sample_state"
    by simp
  from submit_not_ready [OF v k n] v k r show ?thesis
    by simp
qed

text \<open>
  A backend that answers a non-OK status with the body \<open>{"error": ""}\<close>: the body has
  the field, and the message shown is not the field.
\<close>

theorem submit_empty_error_counterexample:
  "fetch_result empty_message_env = Response False (ErrorField [])
   \<and> Fetch (request_body sample_draft []) \<in> set (snd (handleSubmit None empty_message_env sample_state))
   \<and> feedback (fst (handleSubmit None empty_message_env sample_state)) \<noteq> []"
proof -
  have f: "fetch_result empty_message_env = Response False (ErrorField [])"
    by (simp add: empty_message_env_def)
  have "feedback (fst (handleSubmit None empty_message_env sample_state))
      = js ''Failed to submit form. Please try again.''"
    by (simp add: sample_submission send_not_ok [OF f])
  then have "feedback (fst (handleSubmit None empty_message_env sample_state)) \<noteq> []"
    by (simp add: js_def)
  with f sample_submission_sends show ?thesis
    by simp
qed

text \<open>
  C3, as the code has it: for a submission whose response has a non-OK status, the status
  becomes \<open>error\<close>, the draft is left as it was, and the message is the \<open>error\<close> field
  of the body when that field is a non-empty string; it is a generic message when the
  field is empty or absent, when the body does not parse, and when the body is \<open>null\<close>.
\<close>

theorem submit_rejected:
  assumes "Fetch b \<in> set (snd (handleSubmit siteKey env st))"
    and "fetch_result env = Response False body"
  shows "status (fst (handleSubmit siteKey env st)) = Error
    \<and> formData (fst (handleSubmit siteKey env st)) = formData st
    \<and> feedback (fst (handleSubmit siteKey env st)) =
        (case body of
           ErrorField m \<Rightarrow> if m \<noteq> [] then m else js ''Failed to submit form. Please try again.''
         | NoErrorField \<Rightarrow> js ''Failed to submit form. Please try again.''
         | Unparseable \<Rightarrow> js ''Failed to submit form''
         | JsonNull \<Rightarrow> js ''An error occurred. Please try again or contact us directly.'')"
proof -
  from assms(1) obtain t sofar where
    "handleSubmit siteKey env st =
       send env (st\<lparr>status := Submitting, errors := Map.empty, feedback := []\<rparr>) t sofar"
    using handleSubmit_sends by blast
  then show ?thesis
    by (simp add: send_not_ok [OF assms(2)] split: response_body.split)
qed

theorem submit_rejected_witness:
  "Fetch (request_body sample_draft []) \<in> set (snd (handleSubmit None duplicate_lead_env sample_state))
   \<and> fetch_result duplicate_lead_env = Response False (ErrorField (js ''Duplicate lead''))
   \<and> status (fst (handleSubmit None duplicate_lead_env sample_state)) = Error
   \<and> formData (fst (handleSubmit None duplicate_lead_env sample_state)) = sample_draft
   \<and> feedback (fst (handleSubmit None duplicate_lead_env sample_state)) = js ''Duplicate lead''"
proof -
  have f: "fetch_result duplicate_lead_env = Response False (ErrorField (js ''Duplicate lead''))"
    by (simp add: duplicate_lead_env_def)
  have d: "formData sample_state = sample_draft"
    by (simp add: sample_state_def)
  have n: "js ''Duplicate lead'' \<noteq> []"
    by (simp add: js_def)
  from submit_rejected [OF sample_submission_sends f] f d n sample_submission_sends [of duplicate_lead_env]
  show ?thesis
    by simp
qed

text \<open>
  C4: for a submission whose response has an OK status, the draft is replaced by the
  empty draft (each of the ten fields is the empty string), the status becomes
  \<open>success\<close> and the fixed confirmation message is shown.
\<close>

theorem submit_accepted:
  assumes "Fetch b \<in> set (snd (handleSubmit siteKey env st))"
    and "fetch_result env = Response True body"
  shows "formData (fst (handleSubmit siteKey env st)) = empty_form
    \<and> (\<forall>f. get_field (formData (fst (handleSubmit siteKey env st))) f = [])
    \<and> status (fst (handleSubmit siteKey env st)) = Success
    \<and> feedback (fst (handleSubmit siteKey env st)) =
        js ''Thank you. A Los Angeles exchange specialist will follow up within one business day.''"
proof -
  have e: "get_field empty_form f = []" for f
    by (cases f) (simp_all add: empty_form_def)
  from assms(1) obtain t sofar where
    "handleSubmit siteKey env st =
       send env (st\<lparr>status := Submitting, errors := Map.empty, feedback := []\<rparr>) t sofar"
    using handleSubmit_sends by blast
  then show ?thesis
    by (simp add: send_ok [OF assms(2)] e)
qed

theorem submit_accepted_witness:
  "Fetch (request_body sample_draft []) \<in> set (snd (handleSubmit None accepting_env sample_state))
   \<and> fetch_result accepting_env = Response True NoErrorField
   \<and> name (formData sample_state) = js ''Ada Lovelace''
   \<and> formData (fst (handleSubmit None accepting_env sample_state)) = empty_form
   \<and> status (fst (handleSubmit None accepting_env sample_state)) = Success"
proof -
  have f: "fetch_result accepting_env = Response True NoErrorField"
    by (simp add: accepting_env_def)
  have d: "name (formData sample_state) = js ''Ada Lovelace''"
    by (simp add: sample_state_def sample_draft_def)
  from submit_accepted [OF sample_submission_sends f] f d sample_submission_sends [of accepting_env]
  show ?thesis
    by simp
qed

text \<open>
  C5: for a valid draft, with no site key configured, submitting sends exactly one
  request, and the \<open>turnstileToken\<close> of its body is the empty string.
\<close>

theorem submit_without_verification:
  assumes "snd (validate (formData st))"
    and "\<not> truthy siteKey"
  shows "filter is_fetch (snd (handleSubmit siteKey env st)) = [Fetch (request_body (formData st) [])]
    \<and> map_of (request_body (formData st) []) ''turnstileToken'' = Some []"
proof -
  from assms have "handleSubmit siteKey env st =
      send env (st\<lparr>status := Submitting, errors := Map.empty, feedback := []\<rparr>) [] []"
    by (rule handleSubmit_disabled)
  then show ?thesis
    by (simp add: send_fetches request_body_def Let_def)
qed

theorem submit_without_verification_witness:
  "snd (validate (formData sample_state))
   \<and> \<not> truthy None
   \<and> filter is_fetch (snd (handleSubmit None accepting_env sample_state))
       = [Fetch (request_body sample_draft [])]
   \<and> map_of (request_body sample_draft []) ''turnstileToken'' = Some []"
proof -
  have v: "snd (validate (formData sample_state))"
    by (simp add: sample_state_def sample_draft_valid)
  have k: "\<not> truthy None"
    by simp
  have d: "formData sample_state = sample_draft"
    by (simp add: sample_state_def)
  from submit_without_verification [OF v k, of accepting_env] v d show ?thesis
    by simp
qed

text \<open>
  C7: the \<open>phone\<close> of every request the handler sends is the draft's phone field with
  every code unit that is not a decimal digit removed, the digits in their order; the
  sample draft's \<open>(818) 412-8402\<close> goes out as \<open>8184128402\<close>.
\<close>

theorem submit_phone_digits:
  assumes "Fetch b \<in> set (snd (handleSubmit siteKey env st))"
  shows "map_of b ''phone'' = Some (filter is_digit (phone (formData st)))"
proof -
  from assms obtain t where "b = request_body (formData st) t"
    using handleSubmit_sends by blast
  then show ?thesis
    by (simp add: request_body_def Let_def replace_class_filter)
qed

theorem submit_phone_digits_witness:
  "Fetch (request_body sample_draft []) \<in> set (snd (handleSubmit None accepting_env sample_state))
   \<and> phone (formData sample_state) = js ''(818) 412-8402''
   \<and> map_of (request_body sample_draft []) ''phone'' = Some (js ''8184128402'')"
proof -
  have d: "phone (formData sample_state) = js ''(818) 412-8402''"
    by (simp add: sample_state_def sample_draft_def)
  have "filter is_digit (js ''(818) 412-8402'') = js ''8184128402''"
    by (simp add: js_def is_digit_def)
  with submit_phone_digits [OF sample_submission_sends [of accepting_env]] d
    sample_submission_sends [of accepting_env]
  show ?thesis
    by simp
qed

section \<open>The loader over a page lifetime\<close>

text \<open>The script the loader appends is one its own \<open>querySelector\<close> finds.\<close>

lemma script_src_matches: "prefix script_prefix script_src"
  by (simp add: script_prefix_def script_src_def js_def)

lemma loadTurnstile_loaded: "turnstileLoaded p \<Longrightarrow> loadTurnstile p = (p, Resolved)"
  by (simp add: loadTurnstile_def)

text \<open>An idle page stays idle, and its script elements stay as they are.\<close>

lemma page_step_idle:
  assumes "loader_idle p"
  shows "scripts (page_step e p) = scripts p \<and> loader_idle (page_step e p)"
  using assms
  by (cases e) (auto simp: loader_idle_def loadTurnstile_def onload_def onerror_def split: option.splits)

lemma lifetime_idle: "loader_idle p \<Longrightarrow> scripts (lifetime es p) = scripts p"
proof (induction es arbitrary: p)
  case Nil
  show ?case by simp
next
  case (Cons e es)
  from page_step_idle [OF Cons.prems, of e]
  have "scripts (page_step e p) = scripts p" and "loader_idle (page_step e p)"
    by blast+
  with Cons.IH [of "page_step e p"] show ?case
    by simp
qed

lemma appended_idle: "loader_idle (p\<lparr>scripts := xs @ [script_src]\<rparr>)"
proof -
  have "\<exists>x. x \<in> set (xs @ [script_src]) \<and> prefix script_prefix x"
    using script_src_matches by auto
  then have "find (prefix script_prefix) (xs @ [script_src]) \<noteq> None"
    by (simp only: find_None_iff not_not)
  then show ?thesis
    by (simp add: loader_idle_def)
qed

lemma lifetime_scripts:
  "scripts (lifetime es p) = scripts p \<or> scripts (lifetime es p) = scripts p @ [script_src]"
proof (induction es arbitrary: p)
  case Nil
  show ?case by simp
next
  case (Cons e es)
  show ?case
  proof (cases "loader_idle p")
    case True
    then have "scripts (lifetime (e # es) p) = scripts p"
      by (rule lifetime_idle)
    then show ?thesis ..
  next
    case False
    show ?thesis
    proof (cases e)
      case CallLoad
      with False have s: "page_step e p = p\<lparr>scripts := scripts p @ [script_src]\<rparr>"
        by (simp add: loader_idle_def loadTurnstile_def)
      have "scripts (lifetime es (page_step e p)) = scripts (page_step e p)"
        unfolding s by (rule lifetime_idle) (rule appended_idle)
      then show ?thesis
        by (simp add: s)
    next
      case ScriptLoad
      have "scripts (lifetime es (page_step e p)) = scripts (page_step e p)"
        by (rule lifetime_idle) (simp add: ScriptLoad onload_def loader_idle_def)
      then show ?thesis
        by (simp add: ScriptLoad onload_def)
    next
      case ScriptError
      with Cons.IH [of p] show ?thesis
        by (simp add: onerror_def)
    qed
  qed
qed

lemma load_times_loaded:
  "turnstileLoaded p \<Longrightarrow> load_times n p = (p, replicate n Resolved)"
  by (induction n) (simp_all add: loadTurnstile_loaded)

section \<open>Claims about the loader and the widget\<close>

text \<open>
  C9: once the flag \<open>_turnstileLoaded\<close> is set, any number of calls of the loader each
  return a resolved promise and leave the page, and so its script elements, as they
  were; and over a whole page lifetime, whatever the order of calls and of load and
  error events, the loader appends at most one script element.
\<close>

theorem loadTurnstile_once:
  "(turnstileLoaded p \<longrightarrow>
      load_times n p = (p, replicate n Resolved)
      \<and> scripts (fst (load_times n p)) = scripts p)
   \<and> (scripts (lifetime es p) = scripts p
       \<or> scripts (lifetime es p) = scripts p @ [script_src])
   \<and> length (scripts (lifetime es p)) \<le> length (scripts p) + 1"
proof -
  from lifetime_scripts [of es p]
  have "length (scripts (lifetime es p)) \<le> length (scripts p) + 1"
    by auto
  with lifetime_scripts [of es p] show ?thesis
    by (simp add: load_times_loaded)
qed

theorem loadTurnstile_once_witness:
  "turnstileLoaded (lifetime [CallLoad, ScriptLoad] fresh_page)
   \<and> load_times 3 (lifetime [CallLoad, ScriptLoad] fresh_page)
       = (lifetime [CallLoad, ScriptLoad] fresh_page, [Resolved, Resolved, Resolved])
   \<and> scripts (lifetime [CallLoad, ScriptLoad] fresh_page) = [script_src]"
proof -
  have l: "turnstileLoaded (lifetime [CallLoad, ScriptLoad] fresh_page)"
    by (simp add: fresh_page_def loadTurnstile_def onload_def)
  have s: "scripts (lifetime [CallLoad, ScriptLoad] fresh_page) = [script_src]"
    by (simp add: fresh_page_def loadTurnstile_def onload_def)
  from loadTurnstile_once [of "lifetime [CallLoad, ScriptLoad] fresh_page" 3 "[]"] l s
  show ?thesis
    by (simp add: numeral_3_eq_3)
qed

text \<open>
  C10: with a site key configured, when the mount effect gets to \<open>render\<close> and
  \<open>render\<close> returns an identifier, the component stores the identifier and sets the
  readiness flag right then; none of the callbacks handed to \<open>render\<close> has run, and the
  success callback would change nothing any more. The submit button is then disabled
  only while a submission is under way.
\<close>

theorem init_ready_on_render:
  assumes "truthy siteKey"
    and "\<not> cancelled_at_start env"
    and "snd (await_load env p) = Fulfilled"
    and "\<not> cancelled_after_load env"
    and "turnstile_available env"
    and "captcha_mounted env"
    and "render_result env = Rendered i"
  shows "snd (init_turnstile siteKey env (p, st)) = st\<lparr>turnstileId := Some i, turnstileReady := True\<rparr>
    \<and> turnstileId (snd (init_turnstile siteKey env (p, st))) = Some i
    \<and> turnstileReady (snd (init_turnstile siteKey env (p, st)))
    \<and> submit_disabled siteKey (snd (init_turnstile siteKey env (p, st))) = (status st = Submitting)
    \<and> render_callback Passed (snd (init_turnstile siteKey env (p, st)))
        = snd (init_turnstile siteKey env (p, st))"
proof -
  obtain p' where "await_load env p = (p', Fulfilled)"
    using assms(3) by (cases "await_load env p") simp
  with assms have r: "snd (init_turnstile siteKey env (p, st))
      = st\<lparr>turnstileId := Some i, turnstileReady := True\<rparr>"
    by (simp add: init_turnstile_def)
  show ?thesis
    unfolding r by (simp add: submit_disabled_def)
qed

theorem init_ready_on_render_witness:
  "truthy (Some (js ''site-key''))
   \<and> \<not> cancelled_at_start smooth_init
   \<and> snd (await_load smooth_init fresh_page) = Fulfilled
   \<and> \<not> cancelled_after_load smooth_init
   \<and> turnstile_available smooth_init
   \<and> captcha_mounted smooth_init
   \<and> render_result smooth_init = Rendered (js ''w0'')
   \<and> submit_disabled (Some (js ''site-key'')) initial
   \<and> turnstileId (snd (init_turnstile (Some (js ''site-key'')) smooth_init (fresh_page, initial)))
       = Some (js ''w0'')
   \<and> turnstileReady (snd (init_turnstile (Some (js ''site-key'')) smooth_init (fresh_page, initial)))
   \<and> \<not> submit_disabled (Some (js ''site-key''))
         (snd (init_turnstile (Some (js ''site-key'')) smooth_init (fresh_page, initial)))"
proof -
  have k: "truthy (Some (js ''site-key''))"
    by (simp add: js_def)
  have c: "\<not> cancelled_at_start smooth_init" "\<not> cancelled_after_load smooth_init"
    "turnstile_available smooth_init" "captcha_mounted smooth_init"
    "render_result smooth_init = Rendered (js ''w0'')"
    by (simp_all add: smooth_init_def)
  have a: "snd (await_load smooth_init fresh_page) = Fulfilled"
    by (simp add: await_load_def loadTurnstile_def fresh_page_def smooth_init_def)
  have d: "submit_disabled (Some (js ''site-key'')) initial" "status initial \<noteq> Submitting"
    using k by (simp_all add: submit_disabled_def initial_def)
  note t = init_ready_on_render [OF k c(1) a c(2) c(3) c(4) c(5), of initial]
  from t have
    "turnstileId (snd (init_turnstile (Some (js ''site-key'')) smooth_init (fresh_page, initial)))
       = Some (js ''w0'')"
    and "turnstileReady (snd (init_turnstile (Some (js ''site-key'')) smooth_init (fresh_page, initial)))"
    and "submit_disabled (Some (js ''site-key''))
          (snd (init_turnstile (Some (js ''site-key'')) smooth_init (fresh_page, initial)))
       = (status initial = Submitting)"
    by blast+
  with k c a d show ?thesis
    by simp
qed

end
